theory Spec2Isabelle
  imports Complex_Main
begin

section \<open>JavaScript values and strings\<close>

text \<open>
  The extension is TypeScript, but the records it handles come from JSON responses typed
  \<open>any\<close>, so a field may hold any JSON value or be absent. A value is therefore a
  \<open>jsval\<close>; an absent property reads as \<open>JUndefined\<close>. Strings are lists of
  characters holding ASCII text: case conversion and white space are the ASCII ones.
  A number is denoted by the value of its decimal literal.
\<close>

datatype jsval =
    JUndefined
  | JNull
  | JBool bool
  | JNum rat
  | JStr string
  | JArr "jsval list"
  | JObj "(string \<times> jsval) list"

text \<open>Truthiness, as used by \<open>!x\<close>, \<open>x || y\<close>, \<open>x ? a : b\<close> and \<open>if (x)\<close>.\<close>

fun truthy :: "jsval \<Rightarrow> bool" where
  "truthy JUndefined = False"
| "truthy JNull = False"
| "truthy (JBool b) = b"
| "truthy (JNum n) = (n \<noteq> 0)"
| "truthy (JStr s) = (s \<noteq> [])"
| "truthy (JArr xs) = True"
| "truthy (JObj kvs) = True"

text \<open>\<open>a || b\<close>\<close>

definition js_or :: "jsval \<Rightarrow> jsval \<Rightarrow> jsval" where
  "js_or a b = (if truthy a then a else b)"

text \<open>An error object: its \<open>name\<close> and its \<open>message\<close>.\<close>

datatype js_error = JsError string string

definition Error :: "string \<Rightarrow> js_error" where
  "Error msg = JsError ''Error'' msg"

text \<open>
  A \<open>TypeError\<close> raised by the runtime itself (a property read on \<open>undefined\<close>, a call
  of something that is no function); \<open>what\<close> names the expression, the message text
  being the engine's own.
\<close>

definition TypeError :: "string \<Rightarrow> js_error" where
  "TypeError what = JsError ''TypeError'' what"

definition starts_with :: "string \<Rightarrow> string \<Rightarrow> bool" where
  "starts_with p s = (take (length p) s = p)"

text \<open>\<open>s.includes(sub)\<close>\<close>

fun str_includes :: "string \<Rightarrow> string \<Rightarrow> bool" where
  "str_includes [] sub = (sub = [])"
| "str_includes (c # cs) sub = (starts_with sub (c # cs) \<or> str_includes cs sub)"

definition is_space :: "char \<Rightarrow> bool" where
  "is_space c = (c \<in> set [CHR 0x20, CHR 0x09, CHR 0x0A, CHR 0x0B, CHR 0x0C, CHR 0x0D])"

text \<open>\<open>s.trim()\<close>\<close>

definition trim :: "string \<Rightarrow> string" where
  "trim s = rev (dropWhile is_space (rev (dropWhile is_space s)))"

definition lower_char :: "char \<Rightarrow> char" where
  "lower_char c =
     (case map_of (zip ''ABCDEFGHIJKLMNOPQRSTUVWXYZ'' ''abcdefghijklmnopqrstuvwxyz'') c of
        Some d \<Rightarrow> d
      | None \<Rightarrow> c)"

definition upper_char :: "char \<Rightarrow> char" where
  "upper_char c =
     (case map_of (zip ''abcdefghijklmnopqrstuvwxyz'' ''ABCDEFGHIJKLMNOPQRSTUVWXYZ'') c of
        Some d \<Rightarrow> d
      | None \<Rightarrow> c)"

text \<open>\<open>s.toLowerCase()\<close>\<close>

definition toLowerCase :: "string \<Rightarrow> string" where
  "toLowerCase s = map lower_char s"

section \<open>Global regular-expression matching\<close>

text \<open>
  A matcher tells, for the text starting at the current position, how many characters
  the expression matches there, or that it does not match. \<open>s.match(/re/g)\<close> scans from
  the left: on a match it records the matched text and goes on behind it (one further
  when the match is empty), otherwise it moves one character on.
\<close>

type_synonym matcher = "string \<Rightarrow> nat option"

function match_global :: "matcher \<Rightarrow> string \<Rightarrow> string list" where
  "match_global m [] = []"
| "match_global m (c # cs) =
     (case m (c # cs) of
        Some n \<Rightarrow> take n (c # cs) # match_global m (drop (max 1 n) (c # cs))
      | None \<Rightarrow> match_global m cs)"
  by pat_completeness auto
termination
  by (relation "measure (\<lambda>(m, s). length s)") auto

text \<open>\<open>(s.match(/re/g) || []).length\<close>\<close>

definition count_global :: "matcher \<Rightarrow> string \<Rightarrow> nat" where
  "count_global m s = length (match_global m s)"

text \<open>A literal such as \<open>/{{/\<close>, \<open>/}}/\<close>, \<open>/{%/\<close>, \<open>/%}/\<close>.\<close>

definition match_lit :: "string \<Rightarrow> matcher" where
  "match_lit p s = (if starts_with p s then Some (length p) else None)"

text \<open>
  \<open>/{%\s*kw/\<close>: the statement opener, any white space, the keyword. The keywords begin with
  a letter, so the greedy \<open>\s*\<close> never has to give a character back.
\<close>

definition match_stmt :: "string \<Rightarrow> matcher" where
  "match_stmt kw s =
     (if starts_with ''{%'' s then
        let ws = takeWhile is_space (drop 2 s);
            rest = dropWhile is_space (drop 2 s)
        in if starts_with kw rest then Some (2 + length ws + length kw) else None
      else None)"

section \<open>Template validation (templateService.ts)\<close>

record validation =
  isValid :: bool
  errors :: "string list"

definition validateTemplateContent :: "string \<Rightarrow> validation" where
  "validateTemplateContent content =
     (let errors0 = [];
          openBraces = count_global (match_lit ''{{'') content;
          closeBraces = count_global (match_lit ''}}'') content;
          errors1 = (if openBraces \<noteq> closeBraces
                     then errors0 @ [''Mismatched {{ }} braces''] else errors0);
          openStatements = count_global (match_lit ''{%'') content;
          closeStatements = count_global (match_lit ''%}'') content;
          errors2 = (if openStatements \<noteq> closeStatements
                     then errors1 @ [''Mismatched {% %} statement braces''] else errors1);
          ifBlocks = count_global (match_stmt ''if'') content;
          endifBlocks = count_global (match_stmt ''endif'') content;
          errors3 = (if ifBlocks \<noteq> endifBlocks
                     then errors2 @ [''Mismatched if/endif blocks''] else errors2);
          forBlocks = count_global (match_stmt ''for'') content;
          endforBlocks = count_global (match_stmt ''endfor'') content;
          errors4 = (if forBlocks \<noteq> endforBlocks
                     then errors3 @ [''Mismatched for/endfor blocks''] else errors3)
      in \<lparr> isValid = (length errors4 = 0), errors = errors4 \<rparr>)"

text \<open>
  The number of adjacent pairs \<open>aa\<close> met when reading the text from the left, a pair once
  counted not being read again: the number of occurrences of \<open>{{\<close> (or \<open>}}\<close>) in the
  text, stated without any matcher.
\<close>

fun pair_occurrences :: "char \<Rightarrow> string \<Rightarrow> nat" where
  "pair_occurrences a (x # y # zs) =
     (if x = a \<and> y = a then Suc (pair_occurrences a zs) else pair_occurrences a (y # zs))"
| "pair_occurrences a zs = 0"

section \<open>The HTTP layer (utils/httpClient.ts, TemplateService.makeApiCall)\<close>

datatype endpoint =
    TemplateById jsval     \<comment> \<open>\<open>/api/templates/${id}\<close>\<close>
  | TemplateRender jsval   \<comment> \<open>\<open>/api/templates/${id}/render?inputFormat=json&outputFormat=json\<close>\<close>

text \<open>
  A request as it leaves \<open>makeApiCall\<close>: the method, the path, the \<open>X-API-Key\<close> header
  and the object that \<open>JSON.stringify\<close> serialises into the body.
\<close>

record http_request =
  http_method :: string
  endpoint :: endpoint
  x_api_key :: string
  req_body :: "jsval option"

text \<open>
  A response: status code and text, the body as received, and what \<open>JSON.parse\<close> makes
  of that body (a value, or the \<open>SyntaxError\<close> it throws).
\<close>

record http_response =
  status :: nat
  statusText :: string
  resp_body :: string
  parsed :: "js_error + jsval"

datatype http_outcome =
    Rejected js_error          \<comment> \<open>the request's \<open>error\<close> event: the promise rejects\<close>
  | Responded http_response

text \<open>
  What the extension runs against: the stored API key, the remote service behind the
  network, and the clock read when a request body is built and again when an empty
  answer is turned into a record.
\<close>

record env =
  secret :: "string option"
  net :: "http_request \<Rightarrow> http_outcome"
  now_sent :: string
  now_received :: string

definition ok :: "http_response \<Rightarrow> bool" where
  "ok r = (200 \<le> status r \<and> status r < 300)"

text \<open>\<open>response.json()\<close>: an empty or blank body gives \<open>null\<close>.\<close>

definition response_json :: "http_response \<Rightarrow> js_error + jsval" where
  "response_json r =
     (if resp_body r = [] \<or> trim (resp_body r) = [] then Inr JNull else parsed r)"

fun show_nat :: "nat \<Rightarrow> string" where
  "show_nat n =
     (if n < 10 then [''0123456789'' ! n]
      else show_nat (n div 10) @ [''0123456789'' ! (n mod 10)])"

declare show_nat.simps [simp del]

definition getApiKey :: "env \<Rightarrow> string option" where
  "getApiKey env =
     (case secret env of
        None \<Rightarrow> None
      | Some k \<Rightarrow> if k = [] then None else Some k)"

text \<open>
  \<open>makeApiCall\<close> returns the parsed answer or the error it throws, and, beside it, the
  requests that went out (none when there is no API key).
\<close>

definition makeApiCall ::
  "env \<Rightarrow> endpoint \<Rightarrow> string \<Rightarrow> jsval option \<Rightarrow> (js_error + jsval) \<times> http_request list" where
  "makeApiCall env ep meth bdy =
     (case getApiKey env of
        None \<Rightarrow> (Inl (Error ''Not authenticated. Please login first.''), [])
      | Some apiKey \<Rightarrow>
          let req = \<lparr> http_method = meth, endpoint = ep, x_api_key = apiKey, req_body = bdy \<rparr>
          in (case net env req of
                Rejected e \<Rightarrow> (Inl e, [req])
              | Responded response \<Rightarrow>
                  if \<not> ok response
                  then (Inl (Error (''API call failed: '' @ show_nat (status response) @ '' ''
                                     @ statusText response @ '' - '' @ resp_body response)),
                        [req])
                  else (response_json response, [req])))"

section \<open>Templates and the template service (types/index.ts, templateService.ts)\<close>

record Template =
  template_id :: jsval
  name :: jsval
  category :: jsval
  description :: jsval
  content :: jsval
  sampleData :: jsval
  isActive :: jsval
  createdAt :: jsval
  updatedAt :: jsval
  userId :: jsval
  schema :: jsval

text \<open>
  What the user is shown. A message that interpolates a value keeps the value:
  \<open>ErrorWith p e\<close> is \<open>`${p}: ${e}`\<close>, \<open>InfoSaved n\<close> is
  \<open>`Template "${n}" saved to server successfully`\<close>, \<open>InfoEditing n\<close> is
  \<open>`Editing template: ${n}. Use Ctrl+S to save changes back to server.`\<close> and
  \<open>ProgressSaving n\<close> is the progress title \<open>`Saving template "${n}"...`\<close>.
\<close>

datatype notification =
    ErrorMessage string
  | ErrorWith string js_error
  | InfoSaved jsval
  | InfoEditing jsval
  | ProgressSaving jsval

definition nullish :: "jsval \<Rightarrow> bool" where
  "nullish v = (v = JUndefined \<or> v = JNull)"

text \<open>
  \<open>v[k]\<close> for a value that is not \<open>null\<close> or \<open>undefined\<close> and a key that is no built-in
  property: the object's own property, \<open>undefined\<close> when it has none (an object lists each
  key once).
\<close>

fun js_get :: "jsval \<Rightarrow> string \<Rightarrow> jsval" where
  "js_get (JObj kvs) k = (case map_of kvs k of Some v \<Rightarrow> v | None \<Rightarrow> JUndefined)"
| "js_get v k = JUndefined"



text \<open>
  The object \<open>updateTemplate\<close> serialises (lines 128 to 145), after the loop that deletes
  the keys whose value is \<open>undefined\<close>.
\<close>

definition requestBody :: "string \<Rightarrow> jsval \<Rightarrow> Template \<Rightarrow> (string \<times> jsval) list" where
  "requestBody now ident templateData =
     filter (\<lambda>(k, v). v \<noteq> JUndefined)
       [(''Id'', ident),
        (''Name'', name templateData),
        (''Description'', js_or (description templateData) (JStr [])),
        (''Content'', content templateData),
        (''Category'', js_or (category templateData) (JStr ''General'')),
        (''IsActive'', if isActive templateData \<noteq> JUndefined then isActive templateData
                       else JBool True),
        (''Schema'', js_or (schema templateData) JNull),
        (''SampleData'', js_or (sampleData templateData) JNull),
        (''UpdatedAt'', JStr now)]"

text \<open>The record returned for an answer without a body (lines 154 to 165).\<close>

definition confirmation :: "string \<Rightarrow> jsval \<Rightarrow> Template \<Rightarrow> jsval" where
  "confirmation now ident templateData =
     JObj [(''id'', ident),
           (''name'', name templateData),
           (''category'', category templateData),
           (''description'', description templateData),
           (''content'', content templateData),
           (''isActive'', isActive templateData),
           (''sampleData'', js_or (sampleData templateData) JNull),
           (''schema'', js_or (schema templateData) JNull),
           (''createdAt'', JStr []),
           (''updatedAt'', JStr now)]"

text \<open>The \<open>try\<close> block of \<open>updateTemplate\<close>: the value it returns or the error it throws.\<close>

definition updateTemplate_try ::
  "env \<Rightarrow> jsval \<Rightarrow> Template \<Rightarrow> (js_error + jsval) \<times> http_request list" where
  "updateTemplate_try env ident templateData =
     (if \<not> truthy (name templateData) then (Inl (Error ''Name field is required''), [])
      else if \<not> truthy (content templateData) then (Inl (Error ''Content field is required''), [])
      else
        (case makeApiCall env (TemplateById ident) ''PUT''
                (Some (JObj (requestBody (now_sent env) ident templateData))) of
           (Inl e, reqs) \<Rightarrow> (Inl e, reqs)
         | (Inr template, reqs) \<Rightarrow>
             if template = JNull
             then (Inr (confirmation (now_received env) ident templateData), reqs)
             else (Inr template, reqs)))"

text \<open>
  \<open>updateTemplate\<close> with its \<open>catch\<close>: the value returned (\<open>null\<close> after an error), the
  messages shown and the requests sent.
\<close>

definition updateTemplate ::
  "env \<Rightarrow> jsval \<Rightarrow> Template \<Rightarrow> jsval \<times> notification list \<times> http_request list" where
  "updateTemplate env ident templateData =
     (case updateTemplate_try env ident templateData of
        (Inr template, reqs) \<Rightarrow> (template, [], reqs)
      | (Inl e, reqs) \<Rightarrow> (JNull, [ErrorWith ''Failed to update template'' e], reqs))"

text \<open>\<open>TemplateService.testTemplate\<close>: the render call; its \<open>catch\<close> throws the error on.\<close>

definition service_testTemplate ::
  "env \<Rightarrow> jsval \<Rightarrow> jsval \<Rightarrow> (js_error + jsval) \<times> http_request list" where
  "service_testTemplate env ident sample = makeApiCall env (TemplateRender ident) ''POST'' (Some sample)"

section \<open>Opening and saving a template (extension.ts)\<close>

text \<open>
  \<open>templateDocuments\<close>: from the URI of an open document to the template object it was
  opened from.
\<close>

type_synonym registry = "string \<rightharpoonup> Template"

text \<open>
  The effects of one command: the registry afterwards, the messages shown and the
  requests sent. \<open>templateTreeProvider.refresh()\<close> only asks the host to draw the tree
  again and leaves no trace here.
\<close>

record outcome =
  registry :: registry
  shown :: "notification list"
  sent :: "http_request list"



text \<open>
  The object literal that \<open>saveTemplateToServer\<close> passes to \<open>updateTemplate\<close> (lines 398 to
  406); the keys it does not mention read as \<open>undefined\<close>.
\<close>

definition templateData_of :: "Template \<Rightarrow> string \<Rightarrow> Template" where
  "templateData_of storedTemplate text =
     \<lparr> template_id = JUndefined,
       name = name storedTemplate,
       category = category storedTemplate,
       description = description storedTemplate,
       content = JStr text,
       sampleData = sampleData storedTemplate,
       isActive = isActive storedTemplate,
       createdAt = JUndefined,
       updatedAt = JUndefined,
       userId = JUndefined,
       schema = schema storedTemplate \<rparr>"

text \<open>
  \<open>saveTemplateToServer(document)\<close>, for the document with this URI and this text
  (\<open>document.getText()\<close>). One save runs to its end without the buffer or the registry
  being touched in between.
\<close>

definition saveTemplateToServer :: "env \<Rightarrow> registry \<Rightarrow> string \<Rightarrow> string \<Rightarrow> outcome" where
  "saveTemplateToServer env reg uri text =
     (case reg uri of
        None \<Rightarrow> \<lparr> registry = reg, shown = [], sent = [] \<rparr>
      | Some storedTemplate \<Rightarrow>
          let templateId = template_id storedTemplate;
              templateName = name storedTemplate
          in if \<not> truthy (name storedTemplate)
             then \<lparr> registry = reg,
                    shown = [ProgressSaving templateName,
                             ErrorWith ''Failed to save template to server''
                               (Error ''Template name is missing from stored template'')],
                    sent = [] \<rparr>
             else
               (case updateTemplate env templateId (templateData_of storedTemplate text) of
                  (updatedTemplate, notes, reqs) \<Rightarrow>
                    if truthy updatedTemplate
                    then \<lparr> registry = reg(uri \<mapsto> storedTemplate\<lparr> content := JStr text \<rparr>),
                           shown = [ProgressSaving templateName] @ notes @ [InfoSaved templateName],
                           sent = reqs \<rparr>
                    else \<lparr> registry = reg,
                           shown = [ProgressSaving templateName] @ notes,
                           sent = reqs \<rparr>))"

section \<open>Running a test (testing/testRunner.ts)\<close>

text \<open>\<open>prop.charAt(0).toLowerCase() + prop.slice(1)\<close> and its upper-case twin.\<close>

fun lower_first :: "string \<Rightarrow> string" where
  "lower_first [] = []"
| "lower_first (c # cs) = lower_char c # cs"

fun upper_first :: "string \<Rightarrow> string" where
  "upper_first [] = []"
| "upper_first (c # cs) = upper_char c # cs"

text \<open>
  \<open>getProp(obj, ...props)\<close>. The object is given by its property read \<open>obj[p]\<close>, which is
  \<open>undefined\<close> for a property it does not have.
\<close>

fun getProp :: "(string \<Rightarrow> jsval) \<Rightarrow> string list \<Rightarrow> jsval" where
  "getProp obj [] = JUndefined"
| "getProp obj (p # props) =
     (if obj p \<noteq> JUndefined then obj p
      else let lowerProp = lower_first p in
        if obj lowerProp \<noteq> JUndefined then obj lowerProp
        else let upperProp = upper_first p in
          if obj upperProp \<noteq> JUndefined then obj upperProp
          else getProp obj props)"

text \<open>The keys that \<open>getProp\<close> is to try, in the order stated for it.\<close>

definition candidates :: "string list \<Rightarrow> string list" where
  "candidates props = concat (map (\<lambda>p. [p, lower_first p, upper_first p]) props)"

record TestResult =
  success :: jsval
  test_output :: jsval
  test_errors :: "jsval list"
  usageConsumed :: "nat option"

text \<open>
  \<open>output.length > 0\<close> for a truthy \<open>output\<close>: a string or an array has its length, a
  number or \<open>true\<close> has none (\<open>undefined > 0\<close> is false), an object has its own \<open>length\<close>
  property, compared as a number when it is a number or a boolean. A \<open>length\<close> property
  that is itself a string or an array is converted to a number by JavaScript before the
  comparison; that conversion is not described here and such a property counts as not
  positive.
\<close>

fun length_positive :: "jsval \<Rightarrow> bool" where
  "length_positive (JStr s) = (s \<noteq> [])"
| "length_positive (JArr xs) = (xs \<noteq> [])"
| "length_positive (JObj kvs) =
     (case map_of kvs ''length'' of
        Some (JNum n) \<Rightarrow> 0 < n
      | Some (JBool b) \<Rightarrow> b
      | _ \<Rightarrow> False)"
| "length_positive v = False"

definition message :: "js_error \<Rightarrow> string" where
  "message e = (case e of JsError n m \<Rightarrow> m)"

text \<open>The result built in both the validation branch and the \<open>catch\<close>.\<close>

definition failed :: "jsval list \<Rightarrow> TestResult" where
  "failed errs = \<lparr> success = JBool False, test_output = JStr [], test_errors = errs, usageConsumed = None \<rparr>"

text \<open>
  \<open>TestRunner.testTemplate(template, sampleData)\<close>: the result and the requests sent. The
  \<open>duration\<close> field is wall-clock time and is left out.
\<close>

definition testTemplate :: "env \<Rightarrow> Template \<Rightarrow> jsval \<Rightarrow> TestResult \<times> http_request list" where
  "testTemplate env template sample =
     (case content template of
        JStr text \<Rightarrow>
          let validation = validateTemplateContent text
          in if \<not> isValid validation
             then (failed (map JStr (errors validation)), [])
             else
               (case service_testTemplate env (template_id template) sample of
                  (Inl e, reqs) \<Rightarrow> (failed [JStr (message e)], reqs)
                | (Inr result, reqs) \<Rightarrow>
                    if nullish result
                    then (failed [JStr (message (TypeError ''result.output''))], reqs)
                    else
                      let out = js_or (getProp (js_get result) [''output'', ''Output'', ''result'', ''Result''])
                                      (JStr []);
                          err = getProp (js_get result) [''error'', ''Error''];
                          ok_flag = (if truthy err then JBool False
                                     else if truthy out then JBool (length_positive out) else out)
                      in (\<lparr> success = ok_flag,
                             test_output = js_or out (JStr ''No output received''),
                             test_errors = (if truthy err then [err] else []),
                             usageConsumed = Some 1 \<rparr>, reqs))
      | _ \<Rightarrow> (failed [JStr (message (TypeError ''content.match''))], []))"

section \<open>Sample data from a template (testing/testRunner.ts)\<close>

text \<open>
  \<open>/\{\{\s*([^}]+)\s*\}\}/\<close>: everything between the opening braces and the closing ones
  is matched by \<open>\s*\<close>, \<open>[^}]+\<close> and \<open>\s*\<close>, none of which takes a \<open>}\<close>; so the expression
  matches where \<open>{{\<close> is followed by at least one character other than \<open>}\<close> and the first
  \<open>}\<close> after it starts \<open>}}\<close>, and the match ends with that \<open>}}\<close>.
\<close>

definition match_var :: matcher where
  "match_var s =
     (if starts_with ''{{'' s then
        let inner = takeWhile (\<lambda>c. c \<noteq> CHR ''}'') (drop 2 s);
            rest = dropWhile (\<lambda>c. c \<noteq> CHR ''}'') (drop 2 s)
        in if inner \<noteq> [] \<and> starts_with ''}}'' rest then Some (2 + length inner + 2) else None
      else None)"

text \<open>\<open>s.split(d)\<close> for a one-character separator.\<close>

fun split_on :: "char \<Rightarrow> string \<Rightarrow> string list" where
  "split_on d [] = [[]]"
| "split_on d (c # cs) =
     (if c = d then [] # split_on d cs
      else (case split_on d cs of
              p # ps \<Rightarrow> (c # p) # ps
            | [] \<Rightarrow> [[c]]))"

text \<open>\<open>match.replace(/[{}]/g, '').trim().split('.')\<close>\<close>

definition var_parts :: "string \<Rightarrow> string list" where
  "var_parts m = split_on CHR ''.'' (trim (filter (\<lambda>c. c \<noteq> CHR ''{'' \<and> c \<noteq> CHR ''}'') m))"

definition generateSampleValue :: "string \<Rightarrow> string \<Rightarrow> jsval" where
  "generateSampleValue now propertyName =
     (let lowerName = toLowerCase propertyName in
      if str_includes lowerName ''name'' then JStr ''John Doe''
      else if str_includes lowerName ''email'' then JStr ''john@example.com''
      else if str_includes lowerName ''price'' \<or> str_includes lowerName ''cost''
              \<or> str_includes lowerName ''amount'' then JNum (9999 / 100)
      else if str_includes lowerName ''date'' then JStr now
      else if str_includes lowerName ''phone'' then JStr ''+1-555-123-4567''
      else if str_includes lowerName ''address'' then JStr ''123 Main St, Anytown, ST 12345''
      else if str_includes lowerName ''url'' \<or> str_includes lowerName ''link''
           then JStr ''https://example.com''
      else if str_includes lowerName ''id'' then JStr ''12345''
      else if str_includes lowerName ''count'' \<or> str_includes lowerName ''number''
              \<or> str_includes lowerName ''quantity'' then JNum 42
      else if str_includes lowerName ''description'' \<or> str_includes lowerName ''notes''
           then JStr ''Sample description text''
      else if str_includes lowerName ''title'' then JStr ''Sample Title''
      else JStr ''Sample Value'')"

text \<open>
  \<open>o[k] = v\<close> on the own properties of an object. The list holds them as they were added;
  it stands for the object, not for the order in which JavaScript enumerates it (keys
  that look like integers come first there).
\<close>

fun set_prop :: "(string \<times> jsval) list \<Rightarrow> string \<Rightarrow> jsval \<Rightarrow> (string \<times> jsval) list" where
  "set_prop [] k v = [(k, v)]"
| "set_prop ((k', v') # kvs) k v =
     (if k' = k then (k, v) # kvs else (k', v') # set_prop kvs k v)"

text \<open>The properties every object inherits from \<open>Object.prototype\<close>.\<close>

definition inherited_names :: "string list" where
  "inherited_names =
     [''constructor'', ''__defineGetter__'', ''__defineSetter__'', ''hasOwnProperty'',
      ''__lookupGetter__'', ''__lookupSetter__'', ''isPrototypeOf'', ''propertyIsEnumerable'',
      ''toString'', ''valueOf'', ''__proto__'', ''toLocaleString'']"

text \<open>
  How the call ends: it returns a value, it throws, or it escapes: its write is aimed at
  a built-in object shared with the rest of the runtime. Whether the runtime then changes
  the built-in or refuses with a \<open>TypeError\<close> (a read-only property such as a function's
  \<open>name\<close>, in strict mode), and what follows, is not described here.
\<close>

datatype 'a completion = Returns 'a | Throws js_error | Escapes

text \<open>
  One turn of the loop over the matches. \<open>sampleData\<close> holds the own properties of the
  object being built; each of them is an object made by an earlier turn.

  For an object name that is inherited, \<open>sampleData[objectName]\<close> reads the built-in, which
  is truthy: no own property is made and the write is aimed at the built-in; the call
  escapes. Writing a string or a number to \<open>__proto__\<close> of a plain object changes nothing.
\<close>

definition sample_step ::
  "string \<Rightarrow> string \<Rightarrow> (string \<times> jsval) list \<Rightarrow> (string \<times> jsval) list completion" where
  "sample_step now m data =
     (let parts = var_parts m in
      if length parts \<ge> 2 then
        let objectName = parts ! 0;
            propertyName = parts ! 1
        in if objectName \<in> set inherited_names then Escapes
           else
             let own = (case map_of data objectName of
                          Some (JObj kvs) \<Rightarrow> kvs
                        | _ \<Rightarrow> [])
             in Returns (set_prop data objectName
                       (JObj (if propertyName = ''__proto__'' then own
                              else set_prop own propertyName (generateSampleValue now propertyName))))
      else Returns data)"

fun sample_loop ::
  "string \<Rightarrow> string list \<Rightarrow> (string \<times> jsval) list \<Rightarrow> (string \<times> jsval) list completion" where
  "sample_loop now [] data = Returns data"
| "sample_loop now (m # ms) data =
     (case sample_step now m data of
        Returns data' \<Rightarrow> sample_loop now ms data'
      | Throws e \<Rightarrow> Throws e
      | Escapes \<Rightarrow> Escapes)"

definition default_fixture :: "(string \<times> jsval) list" where
  "default_fixture =
     [(''user'', JObj [(''name'', JStr ''John Doe''), (''email'', JStr ''john@example.com'')]),
      (''company'', JObj [(''name'', JStr ''Example Corp'')])]"

text \<open>
  \<open>generateSampleDataFromTemplate(template)\<close>; \<open>now\<close> is the clock's \<open>toISOString()\<close>.
\<close>

definition generateSampleDataFromTemplate ::
  "string \<Rightarrow> Template \<Rightarrow> (string \<times> jsval) list completion" where
  "generateSampleDataFromTemplate now template =
     (case content template of
        JStr text \<Rightarrow>
          (case sample_loop now (match_global match_var text) [] of
             Returns data \<Rightarrow>
               Returns (if length (map fst data) > 0 then data else default_fixture)
           | Throws e \<Rightarrow> Throws e
           | Escapes \<Rightarrow> Escapes)
      | _ \<Rightarrow> Throws (TypeError ''content.match''))"

text \<open>
  The segments of a reference as the specification words them: braces and filters
  stripped (a filter starts at \<open>|\<close>), then split at the dots. The code strips the braces
  only (\<open>var_parts\<close>); the CodeLens command's \<open>generateSampleDataForTemplate\<close> strips the
  filters too, with \<open>split('|')[0].trim()\<close>.
\<close>

definition spec_var_parts :: "string \<Rightarrow> string list" where
  "spec_var_parts m =
     split_on CHR ''.''
       (trim (takeWhile (\<lambda>c. c \<noteq> CHR ''|'')
                (filter (\<lambda>c. c \<noteq> CHR ''{'' \<and> c \<noteq> CHR ''}'') m)))"

section \<open>The request of a save, and a sample session\<close>

text \<open>
  The request that a save of the bound record \<open>storedTemplate\<close> with buffer text \<open>text\<close>
  sends under the API key \<open>k\<close> when the clock reads \<open>now\<close>.
\<close>

definition update_request :: "string \<Rightarrow> string \<Rightarrow> Template \<Rightarrow> string \<Rightarrow> http_request" where
  "update_request k now storedTemplate text =
     \<lparr> http_method = ''PUT'',
       endpoint = TemplateById (template_id storedTemplate),
       x_api_key = k,
       req_body = Some (JObj (requestBody now (template_id storedTemplate)
                                 (templateData_of storedTemplate text))) \<rparr>"

text \<open>A record with every field set, as a fetch may leave it in the registry.\<close>

definition greeting :: Template where
  "greeting =
     \<lparr> template_id = JStr ''tpl-1'',
       name = JStr ''Welcome'',
       category = JStr ''Email'',
       description = JStr ''Greets a new user'',
       content = JStr ''Hello {{ user.name }}!'',
       sampleData = JStr ''{}'',
       isActive = JBool True,
       createdAt = JStr ''2024-01-01T00:00:00.000Z'',
       updatedAt = JStr ''2024-01-02T00:00:00.000Z'',
       userId = JStr ''user-7'',
       schema = JStr ''{}'' \<rparr>"



text \<open>The answer \<open>204 No Content\<close>: nothing to parse.\<close>

definition no_content :: http_response where
  "no_content =
     \<lparr> status = 204,
       statusText = ''No Content'',
       resp_body = [],
       parsed = Inl (JsError ''SyntaxError'' ''Unexpected end of JSON input'') \<rparr>"

definition server_error :: http_response where
  "server_error =
     \<lparr> status = 500,
       statusText = ''Internal Server Error'',
       resp_body = ''boom'',
       parsed = Inl (JsError ''SyntaxError'' ''Unexpected token b in JSON'') \<rparr>"

text \<open>
  A service that answers a fetch with the given response and everything else with the
  given outcome, behind a stored key and a clock.
\<close>

definition session :: "http_response \<Rightarrow> http_outcome \<Rightarrow> env" where
  "session got other =
     \<lparr> secret = Some ''key-123'',
       net = (\<lambda>req. if http_method req = ''GET'' then Responded got else other),
       now_sent = ''2026-11-03T10:00:00.000Z'',
       now_received = ''2026-11-03T10:00:01.000Z'' \<rparr>"

definition doc_uri :: string where
  "doc_uri = ''untitled:Untitled-1''"


section \<open>Verified properties\<close>

subsection \<open>Validation\<close>

lemma count_lit_pair: "count_global (match_lit [a, a]) s = pair_occurrences a s"
  by (induction a s rule: pair_occurrences.induct)
     (auto simp: count_global_def match_lit_def starts_with_def)

text \<open>
  C6. For every content string, \<open>validateTemplateContent\<close> reports the brace-mismatch
  error if and only if the number of occurrences of \<open>{{\<close> differs from the number of
  occurrences of \<open>}}\<close> in the whole text; only totals count, so \<open>{{ {{ }} }}\<close>, with two of
  each, gives no error; and \<open>isValid\<close> is true if and only if the list of errors is empty.
\<close>

theorem validate_brace_mismatch_iff:
  "((''Mismatched {{ }} braces'' \<in> set (errors (validateTemplateContent c)))
      \<longleftrightarrow> pair_occurrences CHR ''{'' c \<noteq> pair_occurrences CHR ''}'' c)
   \<and> (isValid (validateTemplateContent c) \<longleftrightarrow> errors (validateTemplateContent c) = [])
   \<and> pair_occurrences CHR ''{'' ''{{ {{ }} }}'' = 2
   \<and> pair_occurrences CHR ''}'' ''{{ {{ }} }}'' = 2
   \<and> validateTemplateContent ''{{ {{ }} }}'' = \<lparr> isValid = True, errors = [] \<rparr>"
proof -
  have a: "(''Mismatched {{ }} braces'' \<in> set (errors (validateTemplateContent c)))
      \<longleftrightarrow> pair_occurrences CHR ''{'' c \<noteq> pair_occurrences CHR ''}'' c"
    by (simp add: validateTemplateContent_def Let_def count_lit_pair)
  have b: "isValid (validateTemplateContent c) \<longleftrightarrow> errors (validateTemplateContent c) = []"
    by (simp add: validateTemplateContent_def Let_def)
  have c: "validateTemplateContent ''{{ {{ }} }}'' = \<lparr> isValid = True, errors = [] \<rparr>"
    by (simp add: validateTemplateContent_def count_global_def match_lit_def match_stmt_def
        starts_with_def)
  have d: "pair_occurrences CHR ''{'' ''{{ {{ }} }}'' = 2"
    "pair_occurrences CHR ''}'' ''{{ {{ }} }}'' = 2"
    by simp_all
  from a b c d show ?thesis by blast
qed

subsection \<open>Reading the fields of a render result\<close>

lemma getProp_find:
  "getProp obj props = (case find (\<lambda>k. obj k \<noteq> JUndefined) (candidates props) of
                          None \<Rightarrow> JUndefined
                        | Some k \<Rightarrow> obj k)"
  by (induction props) (simp_all add: candidates_def Let_def)

text \<open>
  C9. For every render result \<open>obj\<close> and every property name \<open>p\<close>, \<open>getProp\<close> returns the
  value at the exact key \<open>p\<close> when that is defined; otherwise the value at \<open>p\<close> with its
  first letter in lower case when that is defined; otherwise the value at \<open>p\<close> with its
  first letter in upper case when that is defined; otherwise it moves on to the names that
  remain, and yields \<open>undefined\<close> when none is left. Over all the names given, the result
  is the value at the first key, in this order, that is defined.
\<close>

theorem getProp_priority:
  "(obj p \<noteq> JUndefined \<longrightarrow> getProp obj (p # ps) = obj p)
   \<and> (obj p = JUndefined \<and> obj (lower_first p) \<noteq> JUndefined
        \<longrightarrow> getProp obj (p # ps) = obj (lower_first p))
   \<and> (obj p = JUndefined \<and> obj (lower_first p) = JUndefined \<and> obj (upper_first p) \<noteq> JUndefined
        \<longrightarrow> getProp obj (p # ps) = obj (upper_first p))
   \<and> (obj p = JUndefined \<and> obj (lower_first p) = JUndefined \<and> obj (upper_first p) = JUndefined
        \<longrightarrow> getProp obj (p # ps) = getProp obj ps)
   \<and> getProp obj [] = JUndefined
   \<and> getProp obj props = (case find (\<lambda>k. obj k \<noteq> JUndefined) (candidates props) of
                            None \<Rightarrow> JUndefined
                          | Some k \<Rightarrow> obj k)"
proof -
  have steps: "(obj p \<noteq> JUndefined \<longrightarrow> getProp obj (p # ps) = obj p)
   \<and> (obj p = JUndefined \<and> obj (lower_first p) \<noteq> JUndefined
        \<longrightarrow> getProp obj (p # ps) = obj (lower_first p))
   \<and> (obj p = JUndefined \<and> obj (lower_first p) = JUndefined \<and> obj (upper_first p) \<noteq> JUndefined
        \<longrightarrow> getProp obj (p # ps) = obj (upper_first p))
   \<and> (obj p = JUndefined \<and> obj (lower_first p) = JUndefined \<and> obj (upper_first p) = JUndefined
        \<longrightarrow> getProp obj (p # ps) = getProp obj ps)
   \<and> getProp obj [] = JUndefined"
    by (simp add: Let_def)
  with getProp_find [of obj props] show ?thesis by blast
qed

theorem getProp_priority_witness:
  "getProp (js_get (JObj [(''Output'', JStr ''a''), (''output'', JStr ''b'')])) [''Output''] = JStr ''a''
   \<and> getProp (js_get (JObj [(''output'', JStr ''b'')])) [''Output''] = JStr ''b''
   \<and> getProp (js_get (JObj [(''Output'', JStr ''a'')])) [''output''] = JStr ''a''
   \<and> getProp (js_get (JObj [(''result'', JStr ''r'')])) [''output'', ''result''] = JStr ''r''
   \<and> getProp (js_get (JObj [(''other'', JStr ''r'')])) [''output''] = JUndefined"
proof -
  let ?o1 = "js_get (JObj [(''Output'', JStr ''a''), (''output'', JStr ''b'')])"
  let ?o2 = "js_get (JObj [(''output'', JStr ''b'')])"
  let ?o3 = "js_get (JObj [(''Output'', JStr ''a'')])"
  let ?o4 = "js_get (JObj [(''result'', JStr ''r'')])"
  let ?o5 = "js_get (JObj [(''other'', JStr ''r'')])"
  have 1: "getProp ?o1 [''Output''] = JStr ''a''"
    using getProp_priority [of ?o1 "''Output''" "[]"] by simp
  have 2: "getProp ?o2 [''Output''] = JStr ''b''"
    using getProp_priority [of ?o2 "''Output''" "[]"] by (simp add: lower_char_def)
  have 3: "getProp ?o3 [''output''] = JStr ''a''"
    using getProp_priority [of ?o3 "''output''" "[]"]
    by (simp add: lower_char_def upper_char_def)
  have 4: "getProp ?o4 [''output'', ''result''] = JStr ''r''"
    using getProp_priority [of ?o4 "''output''" "[''result'']"]
      getProp_priority [of ?o4 "''result''" "[]"]
    by (simp add: lower_char_def upper_char_def)
  have 5: "getProp ?o5 [''output''] = JUndefined"
    using getProp_priority [of ?o5 "''output''" "[]"]
    by (simp add: lower_char_def upper_char_def)
  from 1 2 3 4 5 show ?thesis by blast
qed

subsection \<open>Sample data\<close>

text \<open>
  C7. For the content \<open>Hello {{ user.name }}, total {{ order.total }}\<close> the synthesizer
  yields an object whose keys are exactly \<open>user\<close> and \<open>order\<close>; \<open>user.name\<close> is the value of
  the name rule, and \<open>order.total\<close>, whose name matches no rule, is the generic default
  \<open>Sample Value\<close>, not the number of the price rule.
\<close>

theorem synthesize_example:
  "generateSampleDataFromTemplate now
     (template\<lparr> content := JStr ''Hello {{ user.name }}, total {{ order.total }}'' \<rparr>)
   = Returns [(''user'', JObj [(''name'', JStr ''John Doe'')]),
          (''order'', JObj [(''total'', JStr ''Sample Value'')])]
   \<and> generateSampleValue now ''name'' = JStr ''John Doe''
   \<and> generateSampleValue now ''total'' = JStr ''Sample Value''
   \<and> generateSampleValue now ''total'' \<noteq> JNum (9999 / 100)"
  by (simp add: generateSampleDataFromTemplate_def match_var_def starts_with_def
      sample_step_def var_parts_def trim_def is_space_def inherited_names_def
      generateSampleValue_def toLowerCase_def lower_char_def Let_def)

lemma sample_loop_skip:
  "\<forall>m\<in>set ms. length (var_parts m) < 2 \<Longrightarrow> sample_loop now ms data = Returns data"
  by (induction ms) (auto simp: sample_step_def Let_def)

text \<open>
  What the code does: when no match, its braces stripped and trimmed, has a dot in it,
  the loop adds nothing and the default fixture is returned.
\<close>

lemma synthesize_guard:
  assumes "content template = JStr text"
    and "\<forall>m\<in>set (match_global match_var text). length (var_parts m) < 2"
  shows "generateSampleDataFromTemplate now template = Returns default_fixture
         \<and> default_fixture \<noteq> []"
  using assms by (simp add: generateSampleDataFromTemplate_def sample_loop_skip default_fixture_def)

text \<open>
  C8. For every content string in which no double-brace variable reference has at least
  two dot-separated segments, the synthesizer is to return the fixed default fixture. The
  code does so for \<open>no variables here\<close>, but not for \<open>Hi {{ name | string.upcase }}\<close>: the
  one reference there has the single segment \<open>name\<close>, yet the code, which does not strip
  the filter, splits at the dot inside the filter and returns an object with the key
  \<open>name | string\<close> in place of the default fixture.
\<close>

theorem synthesize_filter_reference:
  "generateSampleDataFromTemplate now (template\<lparr> content := JStr ''no variables here'' \<rparr>)
     = Returns default_fixture
   \<and> match_global match_var ''Hi {{ name | string.upcase }}'' = [''{{ name | string.upcase }}'']
   \<and> spec_var_parts ''{{ name | string.upcase }}'' = [''name'']
   \<and> var_parts ''{{ name | string.upcase }}'' = [''name | string'', ''upcase'']
   \<and> generateSampleDataFromTemplate now
         (template\<lparr> content := JStr ''Hi {{ name | string.upcase }}'' \<rparr>)
       = Returns [(''name | string'', JObj [(''upcase'', JStr ''Sample Value'')])]
   \<and> generateSampleDataFromTemplate now
         (template\<lparr> content := JStr ''Hi {{ name | string.upcase }}'' \<rparr>)
       \<noteq> Returns default_fixture"
proof -
  have m: "match_global match_var ''Hi {{ name | string.upcase }}''
      = [''{{ name | string.upcase }}'']"
    by (simp add: match_var_def starts_with_def)
  have sp: "spec_var_parts ''{{ name | string.upcase }}'' = [''name'']"
    by (simp add: spec_var_parts_def trim_def is_space_def)
  have vp: "var_parts ''{{ name | string.upcase }}'' = [''name | string'', ''upcase'']"
    by (simp add: var_parts_def trim_def is_space_def)
  have d: "generateSampleDataFromTemplate now (template\<lparr> content := JStr ''no variables here'' \<rparr>)
      = Returns default_fixture"
    by (simp add: generateSampleDataFromTemplate_def match_var_def starts_with_def
        default_fixture_def)
  have r: "generateSampleDataFromTemplate now
         (template\<lparr> content := JStr ''Hi {{ name | string.upcase }}'' \<rparr>)
       = Returns [(''name | string'', JObj [(''upcase'', JStr ''Sample Value'')])]"
    by (simp add: generateSampleDataFromTemplate_def match_var_def starts_with_def
        sample_step_def var_parts_def trim_def is_space_def inherited_names_def
        generateSampleValue_def toLowerCase_def lower_char_def Let_def)
  have ne: "generateSampleDataFromTemplate now
         (template\<lparr> content := JStr ''Hi {{ name | string.upcase }}'' \<rparr>)
       \<noteq> Returns default_fixture"
    by (simp add: r default_fixture_def)
  from d m sp vp r ne show ?thesis by blast
qed

subsection \<open>The validation gate of a test run\<close>

lemma makeApiCall_sent: "length (snd (makeApiCall env ep meth bdy)) \<le> 1"
  by (simp add: makeApiCall_def Let_def split: option.splits http_outcome.splits)

lemma makeApiCall_key:
  "getApiKey env = Some k \<Longrightarrow>
   snd (makeApiCall env ep meth bdy)
     = [\<lparr> http_method = meth, endpoint = ep, x_api_key = k, req_body = bdy \<rparr>]"
  by (simp add: makeApiCall_def Let_def split: http_outcome.splits)

text \<open>
  C10. For every template whose content fails the validation heuristic, running a test
  returns a failed result (\<open>success\<close> false) whose errors are exactly the validation
  errors, and no render call goes out; a render call goes out only when the content has
  passed validation (and, given an API key, it then does).
\<close>

theorem testTemplate_validation_gate:
  "(content template = JStr text \<and> \<not> isValid (validateTemplateContent text) \<longrightarrow>
      testTemplate env template sample
        = (failed (map JStr (errors (validateTemplateContent text))), [])
      \<and> success (fst (testTemplate env template sample)) = JBool False
      \<and> test_errors (fst (testTemplate env template sample))
          = map JStr (errors (validateTemplateContent text)))
   \<and> (snd (testTemplate env template sample) \<noteq> [] \<longrightarrow>
        (\<exists>text. content template = JStr text \<and> isValid (validateTemplateContent text)))
   \<and> (content template = JStr text \<and> isValid (validateTemplateContent text)
        \<and> getApiKey env = Some k \<longrightarrow>
        snd (testTemplate env template sample)
          = [\<lparr> http_method = ''POST'', endpoint = TemplateRender (template_id template),
               x_api_key = k, req_body = Some sample \<rparr>])"
proof -
  have a: "content template = JStr text \<and> \<not> isValid (validateTemplateContent text) \<longrightarrow>
      testTemplate env template sample
        = (failed (map JStr (errors (validateTemplateContent text))), [])
      \<and> success (fst (testTemplate env template sample)) = JBool False
      \<and> test_errors (fst (testTemplate env template sample))
          = map JStr (errors (validateTemplateContent text))"
    by (simp add: testTemplate_def failed_def)
  have b: "snd (testTemplate env template sample) \<noteq> [] \<longrightarrow>
        (\<exists>text. content template = JStr text \<and> isValid (validateTemplateContent text))"
    by (cases "content template") (auto simp: testTemplate_def Let_def split: if_splits)
  have c: "content template = JStr text \<and> isValid (validateTemplateContent text)
        \<and> getApiKey env = Some k \<longrightarrow>
        snd (testTemplate env template sample)
          = [\<lparr> http_method = ''POST'', endpoint = TemplateRender (template_id template),
               x_api_key = k, req_body = Some sample \<rparr>]"
  proof (intro impI, elim conjE)
    assume h: "content template = JStr text" "isValid (validateTemplateContent text)"
      "getApiKey env = Some k"
    have "snd (service_testTemplate env (template_id template) sample)
        = [\<lparr> http_method = ''POST'', endpoint = TemplateRender (template_id template),
               x_api_key = k, req_body = Some sample \<rparr>]"
      unfolding service_testTemplate_def using h(3) by (rule makeApiCall_key)
    then show "snd (testTemplate env template sample)
          = [\<lparr> http_method = ''POST'', endpoint = TemplateRender (template_id template),
               x_api_key = k, req_body = Some sample \<rparr>]"
      using h(1,2)
      by (cases "service_testTemplate env (template_id template) sample")
         (auto simp: testTemplate_def Let_def split: sum.splits)
  qed
  from a b c show ?thesis by blast
qed

theorem testTemplate_validation_gate_witness:
  "testTemplate (session no_content (Responded no_content))
      (greeting\<lparr> content := JStr ''Hello {{ user.name'' \<rparr>) (JObj [])
     = (failed [JStr ''Mismatched {{ }} braces''], [])
   \<and> snd (testTemplate (session no_content (Responded no_content)) greeting (JObj []))
     = [\<lparr> http_method = ''POST'', endpoint = TemplateRender (JStr ''tpl-1''),
          x_api_key = ''key-123'', req_body = Some (JObj []) \<rparr>]"
proof -
  let ?env = "session no_content (Responded no_content)"
  let ?bad = "greeting\<lparr> content := JStr ''Hello {{ user.name'' \<rparr>"
  have v1: "validateTemplateContent ''Hello {{ user.name''
      = \<lparr> isValid = False, errors = [''Mismatched {{ }} braces''] \<rparr>"
    by (simp add: validateTemplateContent_def count_global_def match_lit_def match_stmt_def
        starts_with_def)
  have v2: "validateTemplateContent ''Hello {{ user.name }}!'' = \<lparr> isValid = True, errors = [] \<rparr>"
    by (simp add: validateTemplateContent_def count_global_def match_lit_def match_stmt_def
        starts_with_def)
  have k: "getApiKey ?env = Some ''key-123''"
    by (simp add: getApiKey_def session_def)
  have 1: "testTemplate ?env ?bad (JObj []) = (failed [JStr ''Mismatched {{ }} braces''], [])"
    using testTemplate_validation_gate [of ?bad "''Hello {{ user.name''" ?env "JObj []"]
    by (simp add: v1)
  have 2: "snd (testTemplate ?env greeting (JObj []))
     = [\<lparr> http_method = ''POST'', endpoint = TemplateRender (JStr ''tpl-1''),
          x_api_key = ''key-123'', req_body = Some (JObj []) \<rparr>]"
    using testTemplate_validation_gate [of greeting "''Hello {{ user.name }}!''" ?env "JObj []" "''key-123''"]
    by (simp add: v2 k greeting_def)
  from 1 2 show ?thesis by blast
qed

subsection \<open>Updating a template\<close>

lemma truthy_defined: "truthy v \<Longrightarrow> v \<noteq> JUndefined"
  by (cases v) auto

text \<open>
  C4. For every update whose input has an empty or missing \<open>name\<close>, or an empty or missing
  \<open>content\<close> (any falsy value, in fact), the update fails with the validation error before
  any network request: no request is sent, \<open>null\<close> is returned and the error is shown.
\<close>

theorem updateTemplate_validation:
  assumes "\<not> truthy (name templateData) \<or> \<not> truthy (content templateData)"
  shows "updateTemplate env ident templateData
         = (JNull,
            [ErrorWith ''Failed to update template''
               (Error (if \<not> truthy (name templateData) then ''Name field is required''
                       else ''Content field is required''))],
            [])"
  using assms by (auto simp: updateTemplate_def updateTemplate_try_def)

theorem updateTemplate_validation_witness:
  "updateTemplate (session no_content (Responded no_content)) (JStr ''tpl-1'')
      (templateData_of (greeting\<lparr> name := JStr [] \<rparr>) ''text'')
     = (JNull, [ErrorWith ''Failed to update template'' (Error ''Name field is required'')], [])
   \<and> updateTemplate (session no_content (Responded no_content)) (JStr ''tpl-1'')
      (templateData_of (greeting\<lparr> name := JUndefined \<rparr>) ''text'')
     = (JNull, [ErrorWith ''Failed to update template'' (Error ''Name field is required'')], [])
   \<and> updateTemplate (session no_content (Responded no_content)) (JStr ''tpl-1'')
      (templateData_of greeting [])
     = (JNull, [ErrorWith ''Failed to update template'' (Error ''Content field is required'')], [])
   \<and> updateTemplate (session no_content (Responded no_content)) (JStr ''tpl-1'')
      ((templateData_of greeting [])\<lparr> content := JUndefined \<rparr>)
     = (JNull, [ErrorWith ''Failed to update template'' (Error ''Content field is required'')], [])"
proof -
  let ?env = "session no_content (Responded no_content)"
  have 1: "updateTemplate ?env (JStr ''tpl-1'') (templateData_of (greeting\<lparr> name := JStr [] \<rparr>) ''text'')
     = (JNull, [ErrorWith ''Failed to update template'' (Error ''Name field is required'')], [])"
    using updateTemplate_validation [of "templateData_of (greeting\<lparr> name := JStr [] \<rparr>) ''text''" ?env "JStr ''tpl-1''"]
    by (simp add: templateData_of_def)
  have 2: "updateTemplate ?env (JStr ''tpl-1'') (templateData_of (greeting\<lparr> name := JUndefined \<rparr>) ''text'')
     = (JNull, [ErrorWith ''Failed to update template'' (Error ''Name field is required'')], [])"
    using updateTemplate_validation [of "templateData_of (greeting\<lparr> name := JUndefined \<rparr>) ''text''" ?env "JStr ''tpl-1''"]
    by (simp add: templateData_of_def)
  have 3: "updateTemplate ?env (JStr ''tpl-1'') (templateData_of greeting [])
     = (JNull, [ErrorWith ''Failed to update template'' (Error ''Content field is required'')], [])"
    using updateTemplate_validation [of "templateData_of greeting []" ?env "JStr ''tpl-1''"]
    by (simp add: templateData_of_def greeting_def)
  have 4: "updateTemplate ?env (JStr ''tpl-1'') ((templateData_of greeting [])\<lparr> content := JUndefined \<rparr>)
     = (JNull, [ErrorWith ''Failed to update template'' (Error ''Content field is required'')], [])"
    using updateTemplate_validation [of "(templateData_of greeting [])\<lparr> content := JUndefined \<rparr>" ?env "JStr ''tpl-1''"]
    by (simp add: templateData_of_def greeting_def)
  from 1 2 3 4 show ?thesis by blast
qed

lemma updateTemplate_try_sent: "length (snd (updateTemplate_try env ident td)) \<le> 1"
proof -
  have "length (snd (makeApiCall env (TemplateById ident) ''PUT''
          (Some (JObj (requestBody (now_sent env) ident td))))) \<le> 1"
    by (rule makeApiCall_sent)
  then show ?thesis
    by (auto simp: updateTemplate_try_def split: prod.splits sum.splits)
qed

lemma updateTemplate_try_rejected:
  assumes "truthy (name td)" "truthy (content td)" "getApiKey env = Some k"
    and "net env \<lparr> http_method = ''PUT'', endpoint = TemplateById ident, x_api_key = k,
                   req_body = Some (JObj (requestBody (now_sent env) ident td)) \<rparr> = Rejected e"
  shows "updateTemplate_try env ident td
         = (Inl e, [\<lparr> http_method = ''PUT'', endpoint = TemplateById ident, x_api_key = k,
                      req_body = Some (JObj (requestBody (now_sent env) ident td)) \<rparr>])"
  using assms by (simp add: updateTemplate_try_def makeApiCall_def)

lemma updateTemplate_try_status:
  assumes "truthy (name td)" "truthy (content td)" "getApiKey env = Some k"
    and "net env \<lparr> http_method = ''PUT'', endpoint = TemplateById ident, x_api_key = k,
                   req_body = Some (JObj (requestBody (now_sent env) ident td)) \<rparr> = Responded r"
    and "\<not> ok r"
  shows "updateTemplate_try env ident td
         = (Inl (Error (''API call failed: '' @ show_nat (status r) @ '' '' @ statusText r
                          @ '' - '' @ resp_body r)),
            [\<lparr> http_method = ''PUT'', endpoint = TemplateById ident, x_api_key = k,
               req_body = Some (JObj (requestBody (now_sent env) ident td)) \<rparr>])"
  using assms by (simp add: updateTemplate_try_def makeApiCall_def)

lemma updateTemplate_try_invalid:
  assumes "\<not> truthy (name td) \<or> \<not> truthy (content td)"
  shows "updateTemplate_try env ident td
         = (Inl (Error (if \<not> truthy (name td) then ''Name field is required''
                        else ''Content field is required'')), [])"
  using assms by (auto simp: updateTemplate_try_def)

text \<open>
  C5. For every save whose update call fails (a validation error, a network error, a
  response outside 2xx, or any other error thrown in \<open>updateTemplate\<close>), the registry is
  left exactly as it was, so no field of the bound record changes; the error is shown to
  the user, no success is reported, and at most one request has gone out: nothing is
  tried again.
\<close>

theorem save_failure_keeps_binding:
  assumes "reg uri = Some storedTemplate"
    and "fst (updateTemplate_try env (template_id storedTemplate)
                (templateData_of storedTemplate text)) = Inl e"
  shows "registry (saveTemplateToServer env reg uri text) = reg
         \<and> ErrorWith (if truthy (name storedTemplate) then ''Failed to update template''
                       else ''Failed to save template to server'')
                      (if truthy (name storedTemplate) then e
                       else Error ''Template name is missing from stored template'')
             \<in> set (shown (saveTemplateToServer env reg uri text))
         \<and> (\<forall>n. InfoSaved n \<notin> set (shown (saveTemplateToServer env reg uri text)))
         \<and> length (sent (saveTemplateToServer env reg uri text)) \<le> 1"
proof -
  obtain reqs where t: "updateTemplate_try env (template_id storedTemplate)
                (templateData_of storedTemplate text) = (Inl e, reqs)"
    using assms(2) by (cases "updateTemplate_try env (template_id storedTemplate)
                (templateData_of storedTemplate text)") auto
  have l: "length reqs \<le> 1"
    using updateTemplate_try_sent [of env "template_id storedTemplate"
        "templateData_of storedTemplate text"] by (simp add: t)
  show ?thesis
    using assms(1) l by (simp add: saveTemplateToServer_def updateTemplate_def t Let_def)
qed

theorem save_failure_keeps_binding_witness:
  "registry (saveTemplateToServer (session no_content (Rejected (Error ''getaddrinfo ENOTFOUND'')))
              [doc_uri \<mapsto> greeting] doc_uri ''Bye'') = [doc_uri \<mapsto> greeting]
   \<and> ErrorWith ''Failed to update template'' (Error ''getaddrinfo ENOTFOUND'')
        \<in> set (shown (saveTemplateToServer (session no_content (Rejected (Error ''getaddrinfo ENOTFOUND'')))
              [doc_uri \<mapsto> greeting] doc_uri ''Bye''))
   \<and> registry (saveTemplateToServer (session no_content (Responded server_error))
              [doc_uri \<mapsto> greeting] doc_uri ''Bye'') = [doc_uri \<mapsto> greeting]
   \<and> ErrorWith ''Failed to update template''
          (Error ''API call failed: 500 Internal Server Error - boom'')
        \<in> set (shown (saveTemplateToServer (session no_content (Responded server_error))
              [doc_uri \<mapsto> greeting] doc_uri ''Bye''))"
proof -
  let ?e1 = "session no_content (Rejected (Error ''getaddrinfo ENOTFOUND''))"
  let ?e2 = "session no_content (Responded server_error)"
  let ?reg = "[doc_uri \<mapsto> greeting]"
  have r: "?reg doc_uri = Some greeting" by simp
  have n: "truthy (name greeting)" by (simp add: greeting_def)
  have f1: "fst (updateTemplate_try ?e1 (template_id greeting) (templateData_of greeting ''Bye''))
      = Inl (Error ''getaddrinfo ENOTFOUND'')"
    by (simp add: updateTemplate_try_def makeApiCall_def getApiKey_def session_def
        templateData_of_def greeting_def)
  have f2: "fst (updateTemplate_try ?e2 (template_id greeting) (templateData_of greeting ''Bye''))
      = Inl (Error ''API call failed: 500 Internal Server Error - boom'')"
    by (simp add: updateTemplate_try_def makeApiCall_def getApiKey_def session_def
        templateData_of_def greeting_def server_error_def ok_def show_nat.simps)
  from save_failure_keeps_binding [where reg = ?reg and uri = doc_uri, OF r f1]
    save_failure_keeps_binding [where reg = ?reg and uri = doc_uri, OF r f2] n
  show ?thesis by simp
qed

subsection \<open>What a save sends\<close>

lemma js_or_defined: "b \<noteq> JUndefined \<Longrightarrow> js_or a b \<noteq> JUndefined"
  by (cases a) (auto simp: js_or_def)

lemma requestBody_eq:
  assumes "name td \<noteq> JUndefined" and "content td \<noteq> JUndefined"
  shows "requestBody now ident td
         = (if ident = JUndefined then [] else [(''Id'', ident)])
           @ [(''Name'', name td),
              (''Description'', js_or (description td) (JStr [])),
              (''Content'', content td),
              (''Category'', js_or (category td) (JStr ''General'')),
              (''IsActive'', if isActive td \<noteq> JUndefined then isActive td else JBool True),
              (''Schema'', js_or (schema td) JNull),
              (''SampleData'', js_or (sampleData td) JNull),
              (''UpdatedAt'', JStr now)]"
  using assms by (simp add: requestBody_def js_or_defined)

lemma save_sends:
  assumes "reg uri = Some st" "truthy (name st)" "text \<noteq> []" "getApiKey env = Some k"
  shows "sent (saveTemplateToServer env reg uri text) = [update_request k (now_sent env) st text]"
proof -
  have "snd (makeApiCall env (TemplateById (template_id st)) ''PUT''
          (Some (JObj (requestBody (now_sent env) (template_id st) (templateData_of st text)))))
        = [update_request k (now_sent env) st text]"
    unfolding update_request_def using assms(4) by (rule makeApiCall_key)
  moreover have "truthy (name (templateData_of st text))" "truthy (content (templateData_of st text))"
    using assms(2,3) by (simp_all add: templateData_of_def)
  ultimately show ?thesis
    using assms(1,2)
    by (auto simp: saveTemplateToServer_def updateTemplate_def updateTemplate_try_def Let_def
        split: prod.splits sum.splits)
qed

text \<open>
  C2, as the code has it. A save of a bound record with a non-empty name and a non-empty
  buffer, under an API key, sends one update request. It carries \<open>Id\<close> and \<open>Name\<close> as
  the registry holds them (\<open>Id\<close> is left out when the record has none); \<open>Description\<close>,
  \<open>Category\<close>, \<open>Schema\<close> and \<open>SampleData\<close> as the registry holds them when they are
  truthy, and otherwise the defaults \<open>''\<close>, \<open>General\<close>, \<open>null\<close> and \<open>null\<close>; \<open>IsActive\<close> as
  the registry holds it, or \<open>true\<close> when it is undefined; \<open>Content\<close> is the buffer text and
  \<open>UpdatedAt\<close> the clock at sending. It carries nothing else: \<open>createdAt\<close> and \<open>userId\<close>
  are not sent.
\<close>

theorem save_request_carries:
  assumes "reg uri = Some st" and "truthy (name st)" and "text \<noteq> []"
    and "getApiKey env = Some k"
  shows "sent (saveTemplateToServer env reg uri text)
         = [\<lparr> http_method = ''PUT'', endpoint = TemplateById (template_id st), x_api_key = k,
              req_body = Some (JObj
                ((if template_id st = JUndefined then [] else [(''Id'', template_id st)])
                 @ [(''Name'', name st),
                    (''Description'', js_or (description st) (JStr [])),
                    (''Content'', JStr text),
                    (''Category'', js_or (category st) (JStr ''General'')),
                    (''IsActive'', if isActive st \<noteq> JUndefined then isActive st else JBool True),
                    (''Schema'', js_or (schema st) JNull),
                    (''SampleData'', js_or (sampleData st) JNull),
                    (''UpdatedAt'', JStr (now_sent env))])) \<rparr>]"
proof -
  have d: "name (templateData_of st text) \<noteq> JUndefined"
    "content (templateData_of st text) \<noteq> JUndefined"
    using assms(2) by (simp_all add: templateData_of_def truthy_defined)
  show ?thesis
    unfolding save_sends [where reg = reg and uri = uri, OF assms] update_request_def
      requestBody_eq [OF d]
    by (simp add: templateData_of_def)
qed

theorem save_request_carries_witness:
  "sent (saveTemplateToServer (session no_content (Responded no_content))
           [doc_uri \<mapsto> greeting\<lparr> category := JStr [], sampleData := JNull \<rparr>] doc_uri ''Bye'')
   = [\<lparr> http_method = ''PUT'', endpoint = TemplateById (JStr ''tpl-1''), x_api_key = ''key-123'',
        req_body = Some (JObj
          [(''Id'', JStr ''tpl-1''),
           (''Name'', JStr ''Welcome''),
           (''Description'', JStr ''Greets a new user''),
           (''Content'', JStr ''Bye''),
           (''Category'', JStr ''General''),
           (''IsActive'', JBool True),
           (''Schema'', JStr ''{}''),
           (''SampleData'', JNull),
           (''UpdatedAt'', JStr ''2026-11-03T10:00:00.000Z'')]) \<rparr>]"
proof -
  let ?st = "greeting\<lparr> category := JStr [], sampleData := JNull \<rparr>"
  let ?env = "session no_content (Responded no_content)"
  have r: "[doc_uri \<mapsto> ?st] doc_uri = Some ?st" by simp
  have n: "truthy (name ?st)" by (simp add: greeting_def)
  have t: "''Bye'' \<noteq> []" by simp
  have k: "getApiKey ?env = Some ''key-123''" by (simp add: getApiKey_def session_def)
  show ?thesis
    using save_request_carries [where reg = "[doc_uri \<mapsto> ?st]" and uri = doc_uri, OF r n t k]
    by (simp add: greeting_def js_or_def session_def)
qed

text \<open>
  C2 as stated asks for every field of the bound record but \<open>content\<close> and \<open>updatedAt\<close> to
  be in the request with the registry's value. For the record \<open>greeting\<close>, which has every
  field set, the request has no \<open>createdAt\<close> and no \<open>userId\<close>.
\<close>

theorem save_request_omits_fields:
  "sent (saveTemplateToServer (session no_content (Responded no_content))
           [doc_uri \<mapsto> greeting] doc_uri ''Hello {{ user.name }}!'')
   = [\<lparr> http_method = ''PUT'', endpoint = TemplateById (JStr ''tpl-1''), x_api_key = ''key-123'',
        req_body = Some (JObj
          [(''Id'', JStr ''tpl-1''),
           (''Name'', JStr ''Welcome''),
           (''Description'', JStr ''Greets a new user''),
           (''Content'', JStr ''Hello {{ user.name }}!''),
           (''Category'', JStr ''Email''),
           (''IsActive'', JBool True),
           (''Schema'', JStr ''{}''),
           (''SampleData'', JStr ''{}''),
           (''UpdatedAt'', JStr ''2026-11-03T10:00:00.000Z'')]) \<rparr>]
   \<and> createdAt greeting = JStr ''2024-01-01T00:00:00.000Z''
   \<and> userId greeting = JStr ''user-7''"
  by (simp add: saveTemplateToServer_def updateTemplate_def updateTemplate_try_def
      makeApiCall_def getApiKey_def session_def no_content_def ok_def response_json_def
      requestBody_def templateData_of_def greeting_def js_or_def confirmation_def Let_def)

subsection \<open>A save answered without a body\<close>

lemma updateTemplate_empty_success:
  assumes "truthy (name td)" "truthy (content td)" "getApiKey env = Some k"
    and "net env \<lparr> http_method = ''PUT'', endpoint = TemplateById ident, x_api_key = k,
                   req_body = Some (JObj (requestBody (now_sent env) ident td)) \<rparr> = Responded r"
    and "ok r" and "response_json r = Inr JNull"
  shows "updateTemplate env ident td
         = (confirmation (now_received env) ident td, [],
            [\<lparr> http_method = ''PUT'', endpoint = TemplateById ident, x_api_key = k,
               req_body = Some (JObj (requestBody (now_sent env) ident td)) \<rparr>])"
  using assms by (simp add: updateTemplate_def updateTemplate_try_def makeApiCall_def)

text \<open>
  C1, as the code has it. For every save whose update call succeeds with an empty
  response body (\<open>json()\<close> yields \<open>null\<close>), the save reports success, and the bound
  record's \<open>content\<close> becomes the saved buffer text while every other field, \<open>updatedAt\<close>
  among them, keeps its value. The locally generated timestamp is put into the record
  that \<open>updateTemplate\<close> returns, which the save only tests for being there.
\<close>

theorem save_empty_success:
  assumes "reg uri = Some st" and "truthy (name st)" and "text \<noteq> []"
    and "getApiKey env = Some k"
    and "net env (update_request k (now_sent env) st text) = Responded r"
    and "ok r" and "response_json r = Inr JNull"
  shows "saveTemplateToServer env reg uri text
         = \<lparr> registry = reg(uri \<mapsto> st\<lparr> content := JStr text \<rparr>),
             shown = [ProgressSaving (name st), InfoSaved (name st)],
             sent = [update_request k (now_sent env) st text] \<rparr>
         \<and> fst (updateTemplate env (template_id st) (templateData_of st text))
             = confirmation (now_received env) (template_id st) (templateData_of st text)
         \<and> js_get (confirmation (now_received env) (template_id st) (templateData_of st text))
              ''updatedAt'' = JStr (now_received env)
         \<and> updatedAt (st\<lparr> content := JStr text \<rparr>) = updatedAt st"
proof -
  have t: "truthy (name (templateData_of st text))" "truthy (content (templateData_of st text))"
    using assms(2,3) by (simp_all add: templateData_of_def)
  have u: "updateTemplate env (template_id st) (templateData_of st text)
      = (confirmation (now_received env) (template_id st) (templateData_of st text), [],
         [update_request k (now_sent env) st text])"
    using updateTemplate_empty_success [OF t assms(4) _ assms(6,7), of "template_id st"] assms(5)
    by (simp add: update_request_def)
  show ?thesis
    using assms(1,2) by (simp add: saveTemplateToServer_def u Let_def confirmation_def)
qed

theorem save_empty_success_witness:
  "saveTemplateToServer (session no_content (Responded no_content)) [doc_uri \<mapsto> greeting] doc_uri ''Bye''
     = \<lparr> registry = [doc_uri \<mapsto> greeting\<lparr> content := JStr ''Bye'' \<rparr>],
         shown = [ProgressSaving (JStr ''Welcome''), InfoSaved (JStr ''Welcome'')],
         sent = [update_request ''key-123'' ''2026-11-03T10:00:00.000Z'' greeting ''Bye''] \<rparr>"
proof -
  let ?env = "session no_content (Responded no_content)"
  have r: "[doc_uri \<mapsto> greeting] doc_uri = Some greeting" by simp
  have n: "truthy (name greeting)" by (simp add: greeting_def)
  have t: "''Bye'' \<noteq> []" by simp
  have k: "getApiKey ?env = Some ''key-123''" by (simp add: getApiKey_def session_def)
  have a: "net ?env (update_request ''key-123'' (now_sent ?env) greeting ''Bye'') = Responded no_content"
    by (simp add: session_def update_request_def)
  have o: "ok no_content" by (simp add: ok_def no_content_def)
  have j: "response_json no_content = Inr JNull" by (simp add: response_json_def no_content_def)
  show ?thesis
    using save_empty_success [where reg = "[doc_uri \<mapsto> greeting]" and uri = doc_uri,
        OF r n t k a o j]
    by (simp add: greeting_def session_def)
qed

text \<open>
  C1 as stated has the bound record's \<open>updatedAt\<close> advanced to a locally generated
  timestamp. Here a save is answered \<open>204 No Content\<close> and reports success; the bound
  record's \<open>updatedAt\<close> is afterwards what it was, neither of the two clock readings.
\<close>

theorem save_empty_success_keeps_updatedAt:
  "response_json no_content = Inr JNull
   \<and> InfoSaved (JStr ''Welcome'')
       \<in> set (shown (saveTemplateToServer (session no_content (Responded no_content))
                       [doc_uri \<mapsto> greeting] doc_uri ''Bye''))
   \<and> map_option content (registry (saveTemplateToServer (session no_content (Responded no_content))
                       [doc_uri \<mapsto> greeting] doc_uri ''Bye'') doc_uri) = Some (JStr ''Bye'')
   \<and> map_option updatedAt (registry (saveTemplateToServer (session no_content (Responded no_content))
                       [doc_uri \<mapsto> greeting] doc_uri ''Bye'') doc_uri)
       = Some (JStr ''2024-01-02T00:00:00.000Z'')
   \<and> updatedAt greeting = JStr ''2024-01-02T00:00:00.000Z''
   \<and> now_sent (session no_content (Responded no_content)) = ''2026-11-03T10:00:00.000Z''
   \<and> now_received (session no_content (Responded no_content)) = ''2026-11-03T10:00:01.000Z''"
  by (simp add: saveTemplateToServer_def updateTemplate_def updateTemplate_try_def
      makeApiCall_def getApiKey_def session_def no_content_def ok_def response_json_def
      templateData_of_def greeting_def confirmation_def Let_def)

subsection \<open>Opening and saving at once\<close>







end
